theory Spec2Isabelle
  imports Main
begin

section \<open>Values of the host language\<close>

text \<open>
  The component class of \<^verbatim>\<open>lib/component.js\<close> is embedded over a small universe of
  JavaScript values. A function value carries the identifier of its code and, once it went
  through \<^verbatim>\<open>Function.prototype.bind\<close> (or is an arrow function), the receiver it is
  fixed to. A plain object is either \<^verbatim>\<open>ObjAt\<close>, an object of the heap known by its
  address, which is what an assignment to a property changes, or \<^verbatim>\<open>Obj\<close>, an object
  that is only read, given by its own enumerable properties. \<^verbatim>\<open>Element\<close> is a DOM
  element given by its attributes (name and value, in document order), \<^verbatim>\<open>Ref\<close> an
  object known by identity only: a component instance, the mediator, a jQuery wrapper.
\<close>

datatype jsval =
    Undefined
  | Null
  | Bool bool
  | Num int
  | Str string
  | Func nat "jsval option"
  | Obj "string \<Rightarrow> jsval option"
  | ObjAt nat
  | Element "(string \<times> string) list"
  | Ref nat

datatype error = TypeError | Thrown jsval

type_synonym cfg = "string \<Rightarrow> jsval option"

section \<open>The host, the world and the instance\<close>

text \<open>
  What the class does not define itself is a parameter of the embedding: whether the global
  \<^verbatim>\<open>jQuery\<close> is defined (line 39), what \<^verbatim>\<open>String.prototype.toUpperCase\<close> makes of
  a string of one character (one or several characters, whatever the alphabet), the value
  of the global \<^verbatim>\<open>setTimeout\<close>, which properties an object known by identity has, and
  what running the code of a function does to the state outside the instance and the heap.
  That code gets the instance by reference, as \<^verbatim>\<open>Ref\<close> of its identity, and is taken
  not to assign to it nor to the plain objects of the heap.
\<close>

record 'w host =
  jQuery :: "(jsval \<Rightarrow> jsval) option"
  toUpperCase :: "char \<Rightarrow> string"
  setTimeout :: jsval
  refProp :: "nat \<Rightarrow> string \<Rightarrow> jsval"
  callFn :: "nat \<Rightarrow> jsval \<Rightarrow> jsval list \<Rightarrow> 'w \<Rightarrow> 'w \<times> (error + jsval)"

text \<open>
  The world keeps the calls the component made, each with the code that was run, the
  receiver it ran with and the arguments it got, the state outside, and the heap of the
  plain objects that are written to: the address of an object is its index, a new object
  goes to the end.
\<close>

record 'w world =
  calls :: "(nat \<times> jsval \<times> jsval list) list"
  ext :: 'w
  heap :: "cfg list"

definition deref :: "cfg list \<Rightarrow> nat \<Rightarrow> cfg" where
  "deref hp a = (if a < length hp then hp ! a else Map.empty)"

text \<open>
  What a call of the hook \<^verbatim>\<open>defaultData\<close> of a class returns: a new object with the
  same properties on every call, as the literal of the base class is (lines 19 to 24), or
  one and the same object of the heap on every call.
\<close>

datatype hook = Fresh cfg | Shared nat

text \<open>
  An instance is its identity, what \<^verbatim>\<open>this[name]\<close> reads for every name (own
  properties such as \<^verbatim>\<open>el\<close>, \<^verbatim>\<open>data\<close> and \<^verbatim>\<open>__mediator\<close>, and the methods
  found through the prototype chain), and the hook \<^verbatim>\<open>defaultData\<close> of its class;
  \<^verbatim>\<open>None\<close> stands for a class whose \<^verbatim>\<open>defaultData\<close> member is falsy.
\<close>

record component =
  self :: nat
  defaultData :: "hook option"
  props :: "string \<Rightarrow> jsval"

definition setProp :: "component \<Rightarrow> string \<Rightarrow> jsval \<Rightarrow> component" where
  "setProp this name v = this\<lparr>props := (props this)(name := v)\<rparr>"

text \<open>\<^verbatim>\<open>arguments[i]\<close>: an argument that was not passed reads as undefined.\<close>

definition arg :: "jsval list \<Rightarrow> nat \<Rightarrow> jsval" where
  "arg args i = (if i < length args then args ! i else Undefined)"

section \<open>Attribute names: \<^verbatim>\<open>_configureData\<close>, lines 63 to 71\<close>

text \<open>The dot of a regular expression matches every character but a line terminator.\<close>

definition lineTerminator :: "char \<Rightarrow> bool" where
  "lineTerminator c \<longleftrightarrow> c = CHR 0x0A \<or> c = CHR 0x0D"

text \<open>
  \<^verbatim>\<open>s.replace(/-(.)/g, ($0, $1) => $1.toUpperCase())\<close>, with the upper-casing \<open>up\<close> of
  the host: the matches are taken from left to right and do not overlap. A hyphen that is
  followed by a character the dot matches is dropped and that character is put in upper
  case, including a second hyphen, which then starts no match of its own; a hyphen at the
  end of the name stays.
\<close>

fun camelCase :: "(char \<Rightarrow> string) \<Rightarrow> string \<Rightarrow> string" where
  "camelCase up (c # d # s) =
     (if c = CHR ''-'' \<and> \<not> lineTerminator d then up d @ camelCase up s
      else c # camelCase up (d # s))"
| "camelCase up s = s"

text \<open>\<^verbatim>\<open>/^data-/.test(name)\<close>.\<close>

definition isDataAttr :: "string \<Rightarrow> bool" where
  "isDataAttr name \<longleftrightarrow> take 5 name = ''data-''"

text \<open>
  \<^verbatim>\<open>DOMData[key] = value\<close> on the object literal \<^verbatim>\<open>{}\<close> with a string value
  (line 69). The literal inherits from \<^verbatim>\<open>Object.prototype\<close>, whose accessor
  \<^verbatim>\<open>__proto__\<close> takes the assignment for that one key; its setter ignores a value that
  is neither an object nor null, so no own property is created. Every other key becomes
  an own property, overwriting an earlier one.
\<close>

definition assignStr :: "cfg \<Rightarrow> string \<Rightarrow> string \<Rightarrow> cfg" where
  "assignStr d key v = (if key = ''__proto__'' then d else d(key \<mapsto> Str v))"

text \<open>The body of the \<^verbatim>\<open>forEach\<close> callback, lines 65 to 70.\<close>

definition eachAttr :: "(char \<Rightarrow> string) \<Rightarrow> string \<times> string \<Rightarrow> cfg \<Rightarrow> cfg" where
  "eachAttr up attr d =
     (if isDataAttr (fst attr) then assignStr d (camelCase up (drop 5 (fst attr))) (snd attr)
      else d)"

definition domData :: "(char \<Rightarrow> string) \<Rightarrow> (string \<times> string) list \<Rightarrow> cfg" where
  "domData up attrs = fold (eachAttr up) attrs Map.empty"

text \<open>
  Following the words of the spec, for comparison with \<open>domData\<close>: every attribute of the
  node whose name starts with \<^verbatim>\<open>data-\<close> gives an entry, under the rest of its name
  converted to camel case, with the string of the attribute as value; the entries are laid
  over one another in the order of the attributes.
\<close>

definition specAttrEntries :: "(char \<Rightarrow> string) \<Rightarrow> (string \<times> string) list \<Rightarrow> cfg" where
  "specAttrEntries up attrs =
     fold (\<lambda>attr d. if isDataAttr (fst attr)
                     then d(camelCase up (drop 5 (fst attr)) \<mapsto> Str (snd attr)) else d)
       attrs Map.empty"

section \<open>Resolving the configuration: \<^verbatim>\<open>_configureData\<close> and the constructor\<close>

text \<open>
  \<^verbatim>\<open>this.defaultData ? this.defaultData() : {}\<close>, the target of line 73: the address of
  the object, and the world after the call. The literal and a hook that returns a new
  object allocate; a hook that returns a shared object hands out that very object.
\<close>

definition defaultsOf :: "component \<Rightarrow> 'w world \<Rightarrow> nat \<times> 'w world" where
  "defaultsOf this w =
     (case defaultData this of
        None \<Rightarrow> (length (heap w), w\<lparr>heap := heap w @ [Map.empty]\<rparr>)
      | Some (Fresh d) \<Rightarrow> (length (heap w), w\<lparr>heap := heap w @ [d]\<rparr>)
      | Some (Shared a) \<Rightarrow> (a, w))"

text \<open>
  Modelled from the spec: \<^verbatim>\<open>objectAssign\<close> is imported from the package
  \<^verbatim>\<open>object-assign\<close> (line 1), which is not among the sources. It lays the sources over
  the target from left to right, the rightmost mapping winning on every key; it does so
  in place, writing into the target, which it returns; a source that is absent, or is no
  mapping, has the meaning of an empty mapping. A source is read when its turn comes, so
  a source that is the target itself is read as the sources before it have left it.
\<close>

definition ownProps :: "cfg list \<Rightarrow> jsval \<Rightarrow> cfg" where
  "ownProps hp v = (case v of Obj m \<Rightarrow> m | ObjAt a \<Rightarrow> deref hp a | _ \<Rightarrow> Map.empty)"

definition objectAssign :: "nat \<Rightarrow> jsval list \<Rightarrow> cfg list \<Rightarrow> cfg list" where
  "objectAssign target sources hp =
     fold (\<lambda>source hp. hp[target := deref hp target ++ ownProps hp source]) sources hp"

text \<open>
  Lines 62 to 74. Reading \<^verbatim>\<open>this.el.attributes\<close> and handing it to \<^verbatim>\<open>forEach\<close>
  throws a TypeError unless the node is an element, the only kind of value with a
  collection of attributes here. \<^verbatim>\<open>DOMData\<close> is a new object that only line 73 reads.
  The instance keeps the target as its data.
\<close>

definition configureData ::
  "'w host \<Rightarrow> component \<Rightarrow> 'w world \<Rightarrow> error option \<times> component \<times> 'w world" where
  "configureData h this w =
     (case props this ''el'' of
        Element attrs \<Rightarrow>
          (let DOMData = domData (toUpperCase h) attrs;
               target = fst (defaultsOf this w);
               w1 = snd (defaultsOf this w)
           in (None,
               setProp this ''data'' (ObjAt target),
               w1\<lparr>heap := objectAssign target [Obj DOMData, props this ''data''] (heap w1)\<rparr>))
      | _ \<Rightarrow> (Some TypeError, this, w))"

text \<open>Lines 37 to 44, run on the freshly allocated instance.\<close>

definition constructor ::
  "'w host \<Rightarrow> component \<Rightarrow> jsval list \<Rightarrow> 'w world \<Rightarrow> error option \<times> component \<times> 'w world" where
  "constructor h this args w =
     (let this1 = setProp this ''el'' (arg args 0);
          this2 = (case jQuery h of
                     None \<Rightarrow> this1
                   | Some jq \<Rightarrow> setProp this1 ''$el'' (jq (props this1 ''el'')));
          this3 = setProp this2 ''data'' (arg args 1);
          this4 = setProp this3 ''__mediator'' (arg args 2)
      in configureData h this4 w)"

section \<open>Calls\<close>

text \<open>
  Calling a value with a receiver: a function runs its code with the receiver it is fixed
  to, if any, and with the receiver of the call otherwise; calling anything else throws a
  TypeError. The call is recorded before the code runs.
\<close>

definition callValue ::
  "'w host \<Rightarrow> jsval \<Rightarrow> jsval \<Rightarrow> jsval list \<Rightarrow> 'w world \<Rightarrow> (error + jsval) \<times> 'w world" where
  "callValue h fv recv args w =
     (case fv of
        Func f b \<Rightarrow>
          (let t = (case b of Some t' \<Rightarrow> t' | None \<Rightarrow> recv);
               res = callFn h f t args (ext w)
           in (snd res, w\<lparr>calls := calls w @ [(f, t, args)], ext := fst res\<rparr>))
      | _ \<Rightarrow> (Inl TypeError, w))"

text \<open>
  Reading one of the properties \<^verbatim>\<open>bind\<close>, \<^verbatim>\<open>publish\<close>, \<^verbatim>\<open>subscribe\<close>,
  \<^verbatim>\<open>unsubscribe\<close> and \<^verbatim>\<open>scan\<close> of a value that is not a function: undefined and
  null have no properties, a plain object has its own, an object known by identity those the
  host gives it; primitive values and elements have none of these five.
\<close>

definition getProp :: "'w host \<Rightarrow> cfg list \<Rightarrow> jsval \<Rightarrow> string \<Rightarrow> error + jsval" where
  "getProp h hp v name =
     (case v of
        Undefined \<Rightarrow> Inl TypeError
      | Null \<Rightarrow> Inl TypeError
      | Obj m \<Rightarrow> Inr (case m name of Some x \<Rightarrow> x | None \<Rightarrow> Undefined)
      | ObjAt a \<Rightarrow> Inr (case deref hp a name of Some x \<Rightarrow> x | None \<Rightarrow> Undefined)
      | Ref r \<Rightarrow> Inr (refProp h r name)
      | _ \<Rightarrow> Inr Undefined)"

text \<open>\<^verbatim>\<open>v.name(...args)\<close>.\<close>

definition callMethod ::
  "'w host \<Rightarrow> jsval \<Rightarrow> string \<Rightarrow> jsval list \<Rightarrow> 'w world \<Rightarrow> (error + jsval) \<times> 'w world" where
  "callMethod h v name args w =
     (case getProp h (heap w) v name of
        Inl e \<Rightarrow> (Inl e, w)
      | Inr fv \<Rightarrow> callValue h fv v args w)"

definition errorOf :: "error + jsval \<Rightarrow> error option" where
  "errorOf r = (case r of Inl e \<Rightarrow> Some e | Inr _ \<Rightarrow> None)"

section \<open>\<^verbatim>\<open>bind\<close>, lines 82 to 87\<close>

text \<open>
  \<^verbatim>\<open>v.bind(t)\<close>. On a function this is \<^verbatim>\<open>Function.prototype.bind\<close>: the result runs
  the same code with the receiver fixed to \<^verbatim>\<open>t\<close>, unless the function was fixed to a
  receiver before, which it then keeps. On any other value it is a call of whatever the
  property \<^verbatim>\<open>bind\<close> of that value holds.
\<close>

definition bindValue ::
  "'w host \<Rightarrow> jsval \<Rightarrow> jsval \<Rightarrow> 'w world \<Rightarrow> (error + jsval) \<times> 'w world" where
  "bindValue h v t w =
     (case v of
        Func f b \<Rightarrow> (Inr (Func f (Some (case b of Some t' \<Rightarrow> t' | None \<Rightarrow> t))), w)
      | _ \<Rightarrow> callMethod h v ''bind'' [t] w)"

text \<open>
  The loop over the names. An exception leaves the loop: the names before it stay rebound,
  those after it are not looked at.
\<close>

fun bind ::
  "'w host \<Rightarrow> string list \<Rightarrow> component \<Rightarrow> 'w world \<Rightarrow> error option \<times> component \<times> 'w world" where
  "bind h [] this w = (None, this, w)"
| "bind h (funcName # rest) this w =
     (case bindValue h (props this funcName) (Ref (self this)) w of
        (Inl e, w') \<Rightarrow> (Some e, this, w')
      | (Inr v, w') \<Rightarrow> bind h rest (setProp this funcName v) w')"

section \<open>Delegation to the mediator, lines 96 to 130\<close>

definition publish ::
  "'w host \<Rightarrow> jsval list \<Rightarrow> component \<Rightarrow> 'w world \<Rightarrow> error option \<times> component \<times> 'w world" where
  "publish h args this w =
     (case callMethod h (props this ''__mediator'') ''publish'' args w of
        (r, w') \<Rightarrow> (errorOf r, this, w'))"

definition subscribe ::
  "'w host \<Rightarrow> jsval \<Rightarrow> jsval \<Rightarrow> component \<Rightarrow> 'w world \<Rightarrow> error option \<times> component \<times> 'w world" where
  "subscribe h topic callback this w =
     (case callMethod h (props this ''__mediator'') ''subscribe''
             [topic, callback, Ref (self this)] w of
        (r, w') \<Rightarrow> (errorOf r, this, w'))"

definition unsubscribe ::
  "'w host \<Rightarrow> jsval \<Rightarrow> jsval \<Rightarrow> component \<Rightarrow> 'w world \<Rightarrow> error option \<times> component \<times> 'w world" where
  "unsubscribe h topic callback this w =
     (case callMethod h (props this ''__mediator'') ''unsubscribe''
             [topic, callback, Ref (self this)] w of
        (r, w') \<Rightarrow> (errorOf r, this, w'))"


section \<open>\<^verbatim>\<open>defer\<close>, lines 139 to 141\<close>

text \<open>
  The default of the parameter applies when the delay is omitted or undefined. The global
  \<^verbatim>\<open>setTimeout\<close> is called as a function, without receiver, and what it returns is
  dropped: the method itself returns undefined. The name carries a prime, \<open>defer\<close> being a
  word of the proof language.
\<close>

definition defer' ::
  "'w host \<Rightarrow> jsval \<Rightarrow> jsval \<Rightarrow> component \<Rightarrow> 'w world \<Rightarrow> (error + jsval) \<times> component \<times> 'w world" where
  "defer' h callback ms this w =
     (case callValue h (setTimeout h) Undefined
             [callback, case ms of Undefined \<Rightarrow> Num 17 | _ \<Rightarrow> ms] w of
        (r, w') \<Rightarrow> (case r of Inl e \<Rightarrow> Inl e | Inr handle \<Rightarrow> Inr Undefined, this, w'))"

section \<open>The mediator\<close>

text \<open>
  Modelled from the spec: the mediator, the loader that creates the components and routes
  their messages, is not among the sources. It exposes the capabilities \<^verbatim>\<open>publish\<close>,
  \<^verbatim>\<open>subscribe\<close>, \<^verbatim>\<open>unsubscribe\<close> and \<^verbatim>\<open>scan\<close>. A registration is a callback
  for a topic, tagged with its owner; \<^verbatim>\<open>subscribe\<close> registers, \<^verbatim>\<open>unsubscribe\<close>
  deregisters, and deregistering what was never registered under that owner and topic is a
  no-op, not an error. Routing a published message and scanning the markup are outside the
  spec and change no registration. The mediator is the object of identity 0.
\<close>

type_synonym registration = "jsval \<times> jsval \<times> jsval"

definition loaderProp :: "nat \<Rightarrow> string \<Rightarrow> jsval" where
  "loaderProp r name =
     (if r = 0 \<and> name = ''publish'' then Func 0 None
      else if r = 0 \<and> name = ''subscribe'' then Func 1 None
      else if r = 0 \<and> name = ''unsubscribe'' then Func 2 None
      else if r = 0 \<and> name = ''scan'' then Func 3 None
      else Undefined)"

definition loaderCall ::
  "nat \<Rightarrow> jsval \<Rightarrow> jsval list \<Rightarrow> registration list \<Rightarrow> registration list \<times> (error + jsval)" where
  "loaderCall f t args regs =
     (if f = 1 then (regs @ [(arg args 0, arg args 1, arg args 2)], Inr Undefined)
      else if f = 2 then (removeAll (arg args 0, arg args 1, arg args 2) regs, Inr Undefined)
      else (regs, Inr Undefined))"

text \<open>
  The upper-casing of the ASCII letters, as every host has it; the two hosts below are
  used with ASCII names only.
\<close>

definition asciiUpper :: "char \<Rightarrow> string" where
  "asciiUpper c =
     (case map_of (zip ''abcdefghijklmnopqrstuvwxyz'' ''ABCDEFGHIJKLMNOPQRSTUVWXYZ'') c of
        Some u \<Rightarrow> [u]
      | None \<Rightarrow> [c])"

definition loader :: "registration list host" where
  "loader = \<lparr>jQuery = None, toUpperCase = asciiUpper, setTimeout = Undefined,
             refProp = loaderProp, callFn = loaderCall\<rparr>"

section \<open>The timer\<close>

text \<open>
  Modelled from the spec: the timer behind \<^verbatim>\<open>setTimeout\<close> and the event loop that
  runs what is due are not among the sources. Scheduling puts the callback on a single
  queue, due no earlier than the delay in milliseconds after the present time, and gives
  back a handle; a delay that is no number, or is negative, counts as none. The event loop
  runs up to a time \<open>t\<close>, after the call that scheduled has returned: every callback due by
  then is run once and leaves the queue, by due time and, among equals, first scheduled
  first. The callbacks that were run are kept in their order.
\<close>

record timers =
  now :: nat
  pending :: "(nat \<times> jsval) list"
  fired :: "jsval list"

definition delayOf :: "jsval \<Rightarrow> nat" where
  "delayOf ms = (case ms of Num n \<Rightarrow> nat n | _ \<Rightarrow> 0)"

definition timerCall ::
  "nat \<Rightarrow> jsval \<Rightarrow> jsval list \<Rightarrow> timers \<Rightarrow> timers \<times> (error + jsval)" where
  "timerCall f t args st =
     (if f = 0
      then (st\<lparr>pending := pending st @ [(now st + delayOf (arg args 1), arg args 0)]\<rparr>,
            Inr (Num (1 + int (length (pending st)) + int (length (fired st)))))
      else (st, Inr Undefined))"

definition advance :: "nat \<Rightarrow> timers \<Rightarrow> timers" where
  "advance t st =
     \<lparr>now = max (now st) t,
      pending = filter (\<lambda>p. t < fst p) (pending st),
      fired = fired st @ map snd (sort_key fst (filter (\<lambda>p. fst p \<le> t) (pending st)))\<rparr>"

definition timerHost :: "timers host" where
  "timerHost = \<lparr>jQuery = None, toUpperCase = asciiUpper, setTimeout = Func 0 None,
                refProp = (\<lambda>r name. Undefined), callFn = timerCall\<rparr>"

section \<open>Basic facts\<close>

lemma setProp_simps [simp]:
  "props (setProp this name v) = (props this)(name := v)"
  "self (setProp this name v) = self this"
  "defaultData (setProp this name v) = defaultData this"
  by (simp_all add: setProp_def)

lemma arg_simps [simp]:
  "arg (x # xs) 0 = x"
  "arg (x # xs) (Suc n) = arg xs n"
  "arg [] n = Undefined"
  by (simp_all add: arg_def)

lemma deref_simps [simp]:
  "deref (hp @ [m]) (length hp) = m"
  "a < length hp \<Longrightarrow> deref (hp @ [m]) a = deref hp a"
  "a < length hp \<Longrightarrow> deref (hp[a := m]) a = m"
  "deref [] a = Map.empty"
  by (simp_all add: deref_def nth_append)

lemma ownProps_simps [simp]:
  "ownProps hp (Obj m) = m"
  "ownProps hp (ObjAt a) = deref hp a"
  "ownProps hp Undefined = Map.empty"
  "ownProps hp Null = Map.empty"
  by (simp_all add: ownProps_def)


lemma defaultsOf_setProp [simp]: "defaultsOf (setProp this name v) w = defaultsOf this w"
  by (simp add: defaultsOf_def)

section \<open>The entries of the attributes\<close>

lemma eachAttr_add:
  "eachAttr up a d =
     d ++ map_of (filter (\<lambda>e. isDataAttr (fst a) \<and> fst e \<noteq> ''__proto__'')
            [(camelCase up (drop 5 (fst a)), Str (snd a))])"
  by (simp add: eachAttr_def assignStr_def)

lemma fold_eachAttr:
  "fold (eachAttr up) attrs d =
     d ++ map_of (rev (map (\<lambda>a. (camelCase up (drop 5 (fst a)), Str (snd a)))
            (filter (\<lambda>a. isDataAttr (fst a) \<and> camelCase up (drop 5 (fst a)) \<noteq> ''__proto__'')
               attrs)))"
proof (induction attrs arbitrary: d)
  case Nil
  then show ?case by simp
next
  case (Cons a attrs)
  have "fold (eachAttr up) (a # attrs) d = fold (eachAttr up) attrs (eachAttr up a d)"
    by simp
  also have "\<dots> = eachAttr up a d ++
      map_of (rev (map (\<lambda>a. (camelCase up (drop 5 (fst a)), Str (snd a)))
        (filter (\<lambda>a. isDataAttr (fst a) \<and> camelCase up (drop 5 (fst a)) \<noteq> ''__proto__'')
           attrs)))"
    by (rule Cons.IH)
  also have "\<dots> = d ++
      map_of (rev (map (\<lambda>a. (camelCase up (drop 5 (fst a)), Str (snd a)))
        (filter (\<lambda>a. isDataAttr (fst a) \<and> camelCase up (drop 5 (fst a)) \<noteq> ''__proto__'')
           (a # attrs))))"
    by (simp add: eachAttr_add)
  finally show ?case .
qed

text \<open>
  What the loop over the attributes computes: an attribute contributes an entry when its
  name starts with \<^verbatim>\<open>data-\<close> and the converted rest of the name is not
  \<^verbatim>\<open>__proto__\<close>; the value is the string of the attribute; of two attributes with the
  same converted name the later one in document order stays.
\<close>

lemma domData_entries:
  "domData up attrs =
     map_of (rev (map (\<lambda>a. (camelCase up (drop 5 (fst a)), Str (snd a)))
            (filter (\<lambda>a. isDataAttr (fst a) \<and> camelCase up (drop 5 (fst a)) \<noteq> ''__proto__'')
               attrs)))"
  by (simp add: domData_def fold_eachAttr)

lemma dom_domData:
  "dom (domData up attrs) =
     {camelCase up (drop 5 (fst a)) | a. a \<in> set attrs \<and> isDataAttr (fst a)} - {''__proto__''}"
  by (auto simp: domData_entries dom_map_of_conv_image_fst image_iff) blast

lemma domData_no_data:
  "\<forall>a\<in>set attrs. \<not> isDataAttr (fst a) \<Longrightarrow> domData up attrs = Map.empty"
  by (simp add: domData_entries filter_False)

text \<open>
  As long as no attribute converts to \<^verbatim>\<open>__proto__\<close>, the loop computes the entries the
  spec describes.
\<close>

lemma fold_spec_step:
  "\<forall>a\<in>set attrs. isDataAttr (fst a) \<longrightarrow> camelCase up (drop 5 (fst a)) \<noteq> ''__proto__'' \<Longrightarrow>
   fold (eachAttr up) attrs d =
   fold (\<lambda>attr d. if isDataAttr (fst attr)
                   then d(camelCase up (drop 5 (fst attr)) \<mapsto> Str (snd attr)) else d) attrs d"
  by (induction attrs arbitrary: d) (simp_all add: eachAttr_def assignStr_def)

lemma domData_eq_spec:
  "\<forall>a\<in>set attrs. isDataAttr (fst a) \<longrightarrow> camelCase up (drop 5 (fst a)) \<noteq> ''__proto__'' \<Longrightarrow>
   domData up attrs = specAttrEntries up attrs"
  by (simp add: domData_def specAttrEntries_def fold_spec_step)

text \<open>
  The conversion of the names, for every host that puts the ASCII letters in upper case
  as usual, and for one that knows more letters.
\<close>

lemma camelCase_examples:
  "up CHR ''p'' = ''P'' \<Longrightarrow> camelCase up (drop 5 ''data-my-param'') = ''myParam''"
  "up CHR ''b'' = ''B'' \<Longrightarrow> camelCase up (drop 5 ''data-a-b'') = ''aB''"
  "up CHR ''b'' = ''B'' \<Longrightarrow> up CHR ''c'' = ''C'' \<Longrightarrow> camelCase up (drop 5 ''data-a-b-c'') = ''aBC''"
  "up CHR ''-'' = ''-'' \<Longrightarrow> camelCase up (drop 5 ''data-a--b'') = ''a-b''"
  "camelCase up (drop 5 ''data-flag-'') = ''flag-''"
  "up (CHR 0xDF) = ''SS'' \<Longrightarrow> camelCase up [CHR ''a'', CHR ''-'', CHR 0xDF] = ''aSS''"
  "up (CHR 0xE9) = [CHR 0xC9] \<Longrightarrow>
     camelCase up [CHR ''a'', CHR ''-'', CHR 0xE9] = [CHR ''a'', CHR 0xC9]"
  by (simp_all add: lineTerminator_def)

lemma asciiUpper_examples:
  "asciiUpper CHR ''p'' = ''P''" "asciiUpper CHR ''b'' = ''B''" "asciiUpper CHR ''-'' = ''-''"
  by (simp_all add: asciiUpper_def)

section \<open>One run of \<^verbatim>\<open>_configureData\<close>\<close>

lemma objectAssign_fresh:
  assumes "\<forall>a. v \<noteq> ObjAt a \<or> a < length hp"
  shows "objectAssign (length hp) [Obj A, v] (hp @ [D]) = hp @ [D ++ A ++ ownProps hp v]"
proof -
  have "ownProps (hp @ [D ++ A]) v = ownProps hp v"
    using assms by (cases v) (auto simp: ownProps_def)
  then show ?thesis
    by (simp add: objectAssign_def)
qed

lemma objectAssign_shared:
  assumes "a < length hp"
  shows "objectAssign a [Obj A, v] hp =
           hp[a := deref hp a ++ A ++ ownProps (hp[a := deref hp a ++ A]) v]"
  using assms by (simp add: objectAssign_def)

text \<open>
  With a hook that returns a new object with the properties \<open>D\<close>, and with no hook, the
  resolved configuration is a new object: \<open>D\<close> overlaid by the entries of the attributes
  overlaid by the data the instance held.
\<close>

lemma configureData_fresh:
  assumes "props this ''el'' = Element attrs"
    and "defaultsOf this w = (length (heap w), w\<lparr>heap := heap w @ [D]\<rparr>)"
    and "\<forall>a. props this ''data'' \<noteq> ObjAt a \<or> a < length (heap w)"
  shows "configureData h this w =
           (None, setProp this ''data'' (ObjAt (length (heap w))),
            w\<lparr>heap := heap w @ [D ++ domData (toUpperCase h) attrs
                                  ++ ownProps (heap w) (props this ''data'')]\<rparr>)"
  using assms(3) by (simp add: configureData_def assms(1,2) Let_def objectAssign_fresh)

text \<open>
  With a hook that returns a shared object, line 73 writes into that object: first the
  entries of the attributes, then the data the instance held, read after the entries
  were written.
\<close>

lemma configureData_shared:
  assumes "props this ''el'' = Element attrs"
    and "defaultData this = Some (Shared a)" and "a < length (heap w)"
  shows "configureData h this w =
           (None, setProp this ''data'' (ObjAt a),
            w\<lparr>heap := (heap w)[a := deref (heap w) a ++ domData (toUpperCase h) attrs
                 ++ ownProps ((heap w)[a := deref (heap w) a ++ domData (toUpperCase h) attrs])
                      (props this ''data'')]\<rparr>)"
  using assms by (simp add: configureData_def defaultsOf_def Let_def objectAssign_shared)

lemma configureData_without_element:
  "props this ''el'' = Undefined \<Longrightarrow> configureData h this w = (Some TypeError, this, w)"
  by (simp add: configureData_def)

lemma constructor_configureData:
  "constructor h this args w =
     configureData h
       (setProp (setProp (case jQuery h of
                            None \<Rightarrow> setProp this ''el'' (arg args 0)
                          | Some jq \<Rightarrow> setProp (setProp this ''el'' (arg args 0)) ''$el''
                                         (jq (arg args 0)))
                   ''data'' (arg args 1))
          ''__mediator'' (arg args 2)) w"
  by (simp add: constructor_def Let_def split: option.split)


text \<open>On an element the construction raises no error, whatever the other arguments are.\<close>

lemma constructor_on_element:
  "arg args 0 = Element attrs \<Longrightarrow> fst (constructor h this args w) = None"
  by (simp add: constructor_def configureData_def Let_def split: option.splits)

lemma constructor_fresh:
  assumes "arg args 0 = Element attrs"
    and "defaultsOf this w = (length (heap w), w\<lparr>heap := heap w @ [D]\<rparr>)"
    and "\<forall>a. arg args 1 \<noteq> ObjAt a \<or> a < length (heap w)"
  shows "fst (constructor h this args w) = None
    \<and> props (fst (snd (constructor h this args w))) ''data'' = ObjAt (length (heap w))
    \<and> snd (snd (constructor h this args w)) =
        w\<lparr>heap := heap w @ [D ++ domData (toUpperCase h) attrs
                              ++ ownProps (heap w) (arg args 1)]\<rparr>"
proof -
  let ?c = "setProp (setProp (case jQuery h of
                            None \<Rightarrow> setProp this ''el'' (arg args 0)
                          | Some jq \<Rightarrow> setProp (setProp this ''el'' (arg args 0)) ''$el''
                                         (jq (arg args 0)))
                   ''data'' (arg args 1))
          ''__mediator'' (arg args 2)"
  have el: "props ?c ''el'' = Element attrs"
    using assms(1) by (simp split: option.split)
  have d: "props ?c ''data'' = arg args 1"
    by simp
  have df: "defaultsOf ?c w = (length (heap w), w\<lparr>heap := heap w @ [D]\<rparr>)"
    using assms(2) by (simp split: option.split)
  have nd: "\<forall>a. props ?c ''data'' \<noteq> ObjAt a \<or> a < length (heap w)"
    using assms(3) by simp
  show ?thesis
    unfolding constructor_configureData configureData_fresh [OF el df nd]
    by simp
qed

text \<open>Without an element there is a TypeError at the first use of the node.\<close>

lemma constructor_without_node: "constructor h this [] w = (Some TypeError, this', w') \<Longrightarrow> w' = w"
  by (simp add: constructor_configureData configureData_def split: option.splits)

lemma constructor_without_node_error: "fst (constructor h this [] w) = Some TypeError"
  by (simp add: constructor_configureData configureData_def split: option.splits)

section \<open>The attribute that is lost\<close>

text \<open>
  With a hook that returns a new object with the properties \<open>D\<close>, or with no hook, and
  as long as no attribute converts to \<^verbatim>\<open>__proto__\<close>, the construction resolves what
  the spec says: \<open>D\<close> overlaid by the entries of all data attributes overlaid by the
  override. An override is only read, so it can be given by value.
\<close>

lemma resolved_as_spec:
  assumes "arg args 0 = Element attrs"
    and "defaultsOf this w = (length (heap w), w\<lparr>heap := heap w @ [D]\<rparr>)"
    and "\<forall>a. arg args 1 \<noteq> ObjAt a \<or> a < length (heap w)"
    and "\<forall>a\<in>set attrs. isDataAttr (fst a) \<longrightarrow>
           camelCase (toUpperCase h) (drop 5 (fst a)) \<noteq> ''__proto__''"
  shows "fst (constructor h this args w) = None
    \<and> props (fst (snd (constructor h this args w))) ''data'' = ObjAt (length (heap w))
    \<and> snd (snd (constructor h this args w)) =
        w\<lparr>heap := heap w @ [D ++ specAttrEntries (toUpperCase h) attrs
                              ++ ownProps (heap w) (arg args 1)]\<rparr>"
  using constructor_fresh [OF assms(1,2,3), of h] domData_eq_spec [OF assms(4)]
  by simp

text \<open>The later source wins on every key.\<close>

lemma override_wins:
  "k \<in> dom ovr \<Longrightarrow> (D ++ A ++ ovr) k = ovr k"
  "k \<notin> dom ovr \<Longrightarrow> (D ++ A ++ ovr) k = (D ++ A) k"
  "k \<notin> dom ovr \<Longrightarrow> k \<notin> dom A \<Longrightarrow> (D ++ A ++ ovr) k = D k"
  by (auto simp: map_add_def split: option.splits)

text \<open>
  C3. Every attribute whose name starts with \<^verbatim>\<open>data-\<close> is to contribute the entry of
  its converted name and its string value. The code does so for every converted name but
  one: the attribute \<^verbatim>\<open>data-__proto__="x"\<close> starts with the prefix and converts to the key
  \<^verbatim>\<open>__proto__\<close>, whatever the upper-casing of the host, but the assignment of line 69
  creates no property, so the attribute contributes no entry: constructed on a node with
  this one attribute, without defaults and without override, the instance has an empty
  configuration.
\<close>

theorem proto_attribute_dropped:
  "isDataAttr ''data-__proto__''
   \<and> camelCase up (drop 5 ''data-__proto__'') = ''__proto__''
   \<and> domData up [(''data-__proto__'', ''x'')] ''__proto__'' = None
   \<and> fst (constructor loader
         \<lparr>self = 4, defaultData = None, props = (\<lambda>n. Undefined)\<rparr>
         [Element [(''data-__proto__'', ''x'')]]
         \<lparr>calls = [], ext = [], heap = []\<rparr>) = None
   \<and> props (fst (snd (constructor loader
         \<lparr>self = 4, defaultData = None, props = (\<lambda>n. Undefined)\<rparr>
         [Element [(''data-__proto__'', ''x'')]]
         \<lparr>calls = [], ext = [], heap = []\<rparr>))) ''data'' = ObjAt 0
   \<and> heap (snd (snd (constructor loader
         \<lparr>self = 4, defaultData = None, props = (\<lambda>n. Undefined)\<rparr>
         [Element [(''data-__proto__'', ''x'')]]
         \<lparr>calls = [], ext = [], heap = []\<rparr>))) = [Map.empty]"
  using constructor_fresh [of "[Element [(''data-__proto__'', ''x'')]]"
      "[(''data-__proto__'', ''x'')]"
      "\<lparr>self = 4, defaultData = None, props = (\<lambda>n. Undefined)\<rparr>"
      "\<lparr>calls = [], ext = [], heap = []\<rparr>" Map.empty loader]
  by (simp add: isDataAttr_def domData_def eachAttr_def assignStr_def lineTerminator_def
      defaultsOf_def)

text \<open>
  C1. The resolved configuration is to be the defaults overlaid by the entries of the data
  attributes overlaid by the override. On the scenario of the spec with one attribute
  more, \<^verbatim>\<open>data-__proto__="x"\<close>, the code resolves
  \<^verbatim>\<open>{count: 5, label: 'hi', extra: 'z'}\<close>: the override has won over the attribute
  \<^verbatim>\<open>data-count\<close>, the attribute \<^verbatim>\<open>data-label\<close> over the default, the default
  \<^verbatim>\<open>extra\<close> stays. But the overlay of the three sources also has the key
  \<^verbatim>\<open>__proto__\<close> with the value \<^verbatim>\<open>'x'\<close>, which only the attributes hold, and the
  code has lost it at line 69, as under C3.
\<close>

theorem precedence_loses_proto_attribute:
  "fst (constructor loader
         \<lparr>self = 4,
           defaultData = Some (Fresh [''count'' \<mapsto> Num 1, ''label'' \<mapsto> Str ''x'',
                                      ''extra'' \<mapsto> Str ''z'']),
           props = (\<lambda>n. Undefined)\<rparr>
         [Element [(''data-count'', ''3''), (''data-label'', ''hi''), (''data-__proto__'', ''x'')],
          Obj [''count'' \<mapsto> Num 5], Ref 0]
         \<lparr>calls = [], ext = [], heap = []\<rparr>) = None
   \<and> props (fst (snd (constructor loader
         \<lparr>self = 4,
           defaultData = Some (Fresh [''count'' \<mapsto> Num 1, ''label'' \<mapsto> Str ''x'',
                                      ''extra'' \<mapsto> Str ''z'']),
           props = (\<lambda>n. Undefined)\<rparr>
         [Element [(''data-count'', ''3''), (''data-label'', ''hi''), (''data-__proto__'', ''x'')],
          Obj [''count'' \<mapsto> Num 5], Ref 0]
         \<lparr>calls = [], ext = [], heap = []\<rparr>))) ''data'' = ObjAt 0
   \<and> heap (snd (snd (constructor loader
         \<lparr>self = 4,
           defaultData = Some (Fresh [''count'' \<mapsto> Num 1, ''label'' \<mapsto> Str ''x'',
                                      ''extra'' \<mapsto> Str ''z'']),
           props = (\<lambda>n. Undefined)\<rparr>
         [Element [(''data-count'', ''3''), (''data-label'', ''hi''), (''data-__proto__'', ''x'')],
          Obj [''count'' \<mapsto> Num 5], Ref 0]
         \<lparr>calls = [], ext = [], heap = []\<rparr>)))
       = [[''count'' \<mapsto> Num 5, ''label'' \<mapsto> Str ''hi'', ''extra'' \<mapsto> Str ''z'']]
   \<and> [''count'' \<mapsto> Num 1, ''label'' \<mapsto> Str ''x'', ''extra'' \<mapsto> Str ''z'']
       ++ specAttrEntries (toUpperCase loader)
            [(''data-count'', ''3''), (''data-label'', ''hi''), (''data-__proto__'', ''x'')]
       ++ [''count'' \<mapsto> Num 5]
       = [''count'' \<mapsto> Num 5, ''label'' \<mapsto> Str ''hi'', ''extra'' \<mapsto> Str ''z'',
          ''__proto__'' \<mapsto> Str ''x'']"
  using constructor_fresh [of 
      "[Element [(''data-count'', ''3''), (''data-label'', ''hi''), (''data-__proto__'', ''x'')],
          Obj [''count'' \<mapsto> Num 5], Ref 0]"
      "[(''data-count'', ''3''), (''data-label'', ''hi''), (''data-__proto__'', ''x'')]"
      "\<lparr>self = 4,
           defaultData = Some (Fresh [''count'' \<mapsto> Num 1, ''label'' \<mapsto> Str ''x'',
                                      ''extra'' \<mapsto> Str ''z'']),
           props = (\<lambda>n. Undefined)\<rparr>"
      "\<lparr>calls = [], ext = [], heap = []\<rparr>"
      "[''count'' \<mapsto> Num 1, ''label'' \<mapsto> Str ''x'', ''extra'' \<mapsto> Str ''z'']" loader]
  by (simp add: isDataAttr_def domData_def specAttrEntries_def eachAttr_def assignStr_def
      lineTerminator_def defaultsOf_def fun_eq_iff map_add_def)

text \<open>
  C7. Without override and without mediator the construction raises no error, the absent
  override counting as an empty mapping, and the result is to be exactly the defaults
  overlaid by the entries of the data attributes. On a node with the attributes
  \<^verbatim>\<open>data-label="hi"\<close> and \<^verbatim>\<open>data-__proto__="x"\<close> and the default
  \<^verbatim>\<open>{label: 'x'}\<close> the code raises no error and resolves \<^verbatim>\<open>{label: 'hi'}\<close>;
  the defaults overlaid by the entries of the attributes also have the key
  \<^verbatim>\<open>__proto__\<close>, lost at line 69, as under C3.
\<close>

theorem construction_loses_proto_attribute:
  "fst (constructor loader
         \<lparr>self = 4, defaultData = Some (Fresh [''label'' \<mapsto> Str ''x'']),
           props = (\<lambda>n. Undefined)\<rparr>
         [Element [(''data-label'', ''hi''), (''data-__proto__'', ''x'')]]
         \<lparr>calls = [], ext = [], heap = []\<rparr>) = None
   \<and> props (fst (snd (constructor loader
         \<lparr>self = 4, defaultData = Some (Fresh [''label'' \<mapsto> Str ''x'']),
           props = (\<lambda>n. Undefined)\<rparr>
         [Element [(''data-label'', ''hi''), (''data-__proto__'', ''x'')]]
         \<lparr>calls = [], ext = [], heap = []\<rparr>))) ''data'' = ObjAt 0
   \<and> heap (snd (snd (constructor loader
         \<lparr>self = 4, defaultData = Some (Fresh [''label'' \<mapsto> Str ''x'']),
           props = (\<lambda>n. Undefined)\<rparr>
         [Element [(''data-label'', ''hi''), (''data-__proto__'', ''x'')]]
         \<lparr>calls = [], ext = [], heap = []\<rparr>))) = [[''label'' \<mapsto> Str ''hi'']]
   \<and> [''label'' \<mapsto> Str ''x'']
       ++ specAttrEntries (toUpperCase loader)
            [(''data-label'', ''hi''), (''data-__proto__'', ''x'')]
       = [''label'' \<mapsto> Str ''hi'', ''__proto__'' \<mapsto> Str ''x'']"
  using constructor_fresh [of
      "[Element [(''data-label'', ''hi''), (''data-__proto__'', ''x'')]]"
      "[(''data-label'', ''hi''), (''data-__proto__'', ''x'')]"
      "\<lparr>self = 4, defaultData = Some (Fresh [''label'' \<mapsto> Str ''x'']),
           props = (\<lambda>n. Undefined)\<rparr>"
      "\<lparr>calls = [], ext = [], heap = []\<rparr>"
      "[''label'' \<mapsto> Str ''x'']" loader]
  by (simp add: isDataAttr_def domData_def specAttrEntries_def eachAttr_def assignStr_def
      lineTerminator_def defaultsOf_def fun_eq_iff map_add_def)

section \<open>Resolution and the object of the defaults\<close>

text \<open>
  With a hook that returns a shared object the construction writes into that object.
\<close>

lemma constructor_shared:
  assumes "arg args 0 = Element attrs"
    and "defaultData this = Some (Shared a)" and "a < length (heap w)"
  shows "fst (constructor h this args w) = None
    \<and> props (fst (snd (constructor h this args w))) ''data'' = ObjAt a
    \<and> snd (snd (constructor h this args w)) =
        w\<lparr>heap := (heap w)[a := deref (heap w) a ++ domData (toUpperCase h) attrs
             ++ ownProps ((heap w)[a := deref (heap w) a ++ domData (toUpperCase h) attrs])
                  (arg args 1)]\<rparr>"
proof -
  let ?c = "setProp (setProp (case jQuery h of
                            None \<Rightarrow> setProp this ''el'' (arg args 0)
                          | Some jq \<Rightarrow> setProp (setProp this ''el'' (arg args 0)) ''$el''
                                         (jq (arg args 0)))
                   ''data'' (arg args 1))
          ''__mediator'' (arg args 2)"
  have el: "props ?c ''el'' = Element attrs"
    using assms(1) by (simp split: option.split)
  have df: "defaultData ?c = Some (Shared a)"
    using assms(2) by (simp split: option.split)
  show ?thesis
    unfolding constructor_configureData configureData_shared [OF el df assms(3)]
    by simp
qed






section \<open>Delegation\<close>

lemma callMethod_Func:
  "getProp h (heap w) v name = Inr (Func f b) \<Longrightarrow>
   callMethod h v name args w =
     (snd (callFn h f (case b of Some t \<Rightarrow> t | None \<Rightarrow> v) args (ext w)),
      w\<lparr>calls := calls w @ [(f, case b of Some t \<Rightarrow> t | None \<Rightarrow> v, args)],
        ext := fst (callFn h f (case b of Some t \<Rightarrow> t | None \<Rightarrow> v) args (ext w))\<rparr>)"
  by (simp add: callMethod_def callValue_def Let_def)

text \<open>Without a mediator the first use throws, and nothing is called.\<close>

lemma publish_without_mediator:
  "props this ''__mediator'' = Undefined \<Longrightarrow> publish h args this w = (Some TypeError, this, w)"
  by (simp add: publish_def callMethod_def getProp_def errorOf_def)


lemma loader_getProp:
  "getProp loader hp (Ref 0) ''publish'' = Inr (Func 0 None)"
  "getProp loader hp (Ref 0) ''subscribe'' = Inr (Func 1 None)"
  "getProp loader hp (Ref 0) ''unsubscribe'' = Inr (Func 2 None)"
  "getProp loader hp (Ref 0) ''scan'' = Inr (Func 3 None)"
  by (simp_all add: getProp_def loader_def loaderProp_def)

lemma loader_callFn:
  "callFn loader 0 t args regs = (regs, Inr Undefined)"
  "callFn loader 1 t [a, b, c] regs = (regs @ [(a, b, c)], Inr Undefined)"
  "callFn loader (Suc 0) t [a, b, c] regs = (regs @ [(a, b, c)], Inr Undefined)"
  "callFn loader 2 t [a, b, c] regs = (removeAll (a, b, c) regs, Inr Undefined)"
  "callFn loader 3 t args regs = (regs, Inr Undefined)"
  by (simp_all add: loader_def loaderCall_def numeral_2_eq_2)

text \<open>
  C6. When the mediator exposes \<^verbatim>\<open>publish\<close> as a function, publishing runs the code of
  that function once, on the mediator, with exactly the argument list it was given, in the
  same order and in full, and returns the instance as it was; an error of the mediator goes
  to the caller.
\<close>

theorem publish_forwards:
  "getProp h (heap w) (props this ''__mediator'') ''publish'' = Inr (Func f b) \<Longrightarrow>
   publish h args this w =
     (errorOf (snd (callFn h f (case b of Some t \<Rightarrow> t | None \<Rightarrow> props this ''__mediator'')
                      args (ext w))),
      this,
      w\<lparr>calls := calls w @
                 [(f, case b of Some t \<Rightarrow> t | None \<Rightarrow> props this ''__mediator'', args)],
        ext := fst (callFn h f (case b of Some t \<Rightarrow> t | None \<Rightarrow> props this ''__mediator'')
                     args (ext w))\<rparr>)"
  by (simp add: publish_def callMethod_Func)

theorem publish_forwards_witness:
  "publish loader [Str ''saved'', Num 1, Str ''a'', Num 1]
     \<lparr>self = 4, defaultData = None, props = (\<lambda>n. Undefined)(''__mediator'' := Ref 0)\<rparr>
     \<lparr>calls = [], ext = [], heap = []\<rparr>
   = (None,
      \<lparr>self = 4, defaultData = None, props = (\<lambda>n. Undefined)(''__mediator'' := Ref 0)\<rparr>,
      \<lparr>calls = [(0, Ref 0, [Str ''saved'', Num 1, Str ''a'', Num 1])], ext = [], heap = []\<rparr>)"
  using publish_forwards [of loader "\<lparr>calls = [], ext = [], heap = []\<rparr>"
      "\<lparr>self = 4, defaultData = None, props = (\<lambda>n. Undefined)(''__mediator'' := Ref 0)\<rparr>"
      0 None "[Str ''saved'', Num 1, Str ''a'', Num 1]"]
  by (simp add: loader_getProp loader_callFn errorOf_def)



text \<open>
  C5. When the mediator exposes \<^verbatim>\<open>subscribe\<close> as a function,
  \<^verbatim>\<open>subscribe(topic, callback)\<close> runs it once with exactly the topic, the callback as it
  was passed and the instance as owner; likewise \<^verbatim>\<open>unsubscribe(topic, callback)\<close> with
  the mediator's \<^verbatim>\<open>unsubscribe\<close>. With the mediator of the spec, unsubscribing a
  callback that was never registered under this owner and topic throws no error and
  leaves the registrations as they were, while the mediator's \<^verbatim>\<open>unsubscribe\<close> is
  still called with the instance as owner.
\<close>

theorem subscription_delegation:
  "(getProp h (heap w) (props this ''__mediator'') ''subscribe'' = Inr (Func f b) \<longrightarrow>
      subscribe h topic callback this w =
        (errorOf (snd (callFn h f (case b of Some t \<Rightarrow> t | None \<Rightarrow> props this ''__mediator'')
                         [topic, callback, Ref (self this)] (ext w))),
         this,
         w\<lparr>calls := calls w @ [(f, case b of Some t \<Rightarrow> t | None \<Rightarrow> props this ''__mediator'',
                               [topic, callback, Ref (self this)])],
           ext := fst (callFn h f (case b of Some t \<Rightarrow> t | None \<Rightarrow> props this ''__mediator'')
                        [topic, callback, Ref (self this)] (ext w))\<rparr>))
   \<and> (getProp h (heap w) (props this ''__mediator'') ''unsubscribe'' = Inr (Func g b) \<longrightarrow>
      unsubscribe h topic callback this w =
        (errorOf (snd (callFn h g (case b of Some t \<Rightarrow> t | None \<Rightarrow> props this ''__mediator'')
                         [topic, callback, Ref (self this)] (ext w))),
         this,
         w\<lparr>calls := calls w @ [(g, case b of Some t \<Rightarrow> t | None \<Rightarrow> props this ''__mediator'',
                               [topic, callback, Ref (self this)])],
           ext := fst (callFn h g (case b of Some t \<Rightarrow> t | None \<Rightarrow> props this ''__mediator'')
                        [topic, callback, Ref (self this)] (ext w))\<rparr>))
   \<and> (props this ''__mediator'' = Ref 0 \<and> (topic, callback, Ref (self this)) \<notin> set (ext w) \<longrightarrow>
      unsubscribe loader topic callback this w =
        (None, this,
         w\<lparr>calls := calls w @ [(2, Ref 0, [topic, callback, Ref (self this)])]\<rparr>))"
  by (simp add: subscribe_def unsubscribe_def callMethod_Func loader_getProp loader_callFn
      errorOf_def)

theorem subscription_delegation_witness:
  "subscribe loader (Str ''saved'') (Func 7 (Some (Ref 4)))
     \<lparr>self = 4, defaultData = None, props = (\<lambda>n. Undefined)(''__mediator'' := Ref 0)\<rparr>
     \<lparr>calls = [], ext = [], heap = []\<rparr>
   = (None,
      \<lparr>self = 4, defaultData = None, props = (\<lambda>n. Undefined)(''__mediator'' := Ref 0)\<rparr>,
      \<lparr>calls = [(1, Ref 0, [Str ''saved'', Func 7 (Some (Ref 4)), Ref 4])],
        ext = [(Str ''saved'', Func 7 (Some (Ref 4)), Ref 4)], heap = []\<rparr>)
   \<and> unsubscribe loader (Str ''saved'') (Func 8 None)
     \<lparr>self = 4, defaultData = None, props = (\<lambda>n. Undefined)(''__mediator'' := Ref 0)\<rparr>
     \<lparr>calls = [], ext = [(Str ''saved'', Func 7 (Some (Ref 4)), Ref 4)], heap = []\<rparr>
   = (None,
      \<lparr>self = 4, defaultData = None, props = (\<lambda>n. Undefined)(''__mediator'' := Ref 0)\<rparr>,
      \<lparr>calls = [(2, Ref 0, [Str ''saved'', Func 8 None, Ref 4])],
        ext = [(Str ''saved'', Func 7 (Some (Ref 4)), Ref 4)], heap = []\<rparr>)"
  using subscription_delegation [of loader "\<lparr>calls = [], ext = [], heap = []\<rparr>"
      "\<lparr>self = 4, defaultData = None, props = (\<lambda>n. Undefined)(''__mediator'' := Ref 0)\<rparr>"
      1 None "Str ''saved''" "Func 7 (Some (Ref 4))" 2]
    subscription_delegation [of loader
      "\<lparr>calls = [], ext = [(Str ''saved'', Func 7 (Some (Ref 4)), Ref 4)], heap = []\<rparr>"
      "\<lparr>self = 4, defaultData = None, props = (\<lambda>n. Undefined)(''__mediator'' := Ref 0)\<rparr>"
      1 None "Str ''saved''" "Func 8 None" 2]
  by (simp add: loader_getProp loader_callFn errorOf_def)

section \<open>Binding\<close>

lemma bindValue_Func:
  "bindValue h (Func f b) t w = (Inr (Func f (Some (case b of Some t' \<Rightarrow> t' | None \<Rightarrow> t))), w)"
  by (simp add: bindValue_def)

text \<open>
  A value that is no function and has no function as its property \<^verbatim>\<open>bind\<close> cannot be
  bound: undefined, null, a primitive value, an element, an object without such a property.
\<close>

lemma bindValue_TypeError:
  assumes "\<forall>f b. v \<noteq> Func f b" and "\<forall>f b. getProp h (heap w) v ''bind'' \<noteq> Inr (Func f b)"
  shows "bindValue h v t w = (Inl TypeError, w)"
proof -
  have "bindValue h v t w = callMethod h v ''bind'' [t] w"
    using assms(1) by (cases v) (simp_all add: bindValue_def)
  also have "\<dots> = (Inl TypeError, w)"
  proof (cases "getProp h (heap w) v ''bind''")
    case (Inl e)
    then have "e = TypeError"
      by (cases v) (simp_all add: getProp_def)
    with Inl show ?thesis by (simp add: callMethod_def)
  next
    case (Inr fv)
    with assms(2) have "\<forall>f b. fv \<noteq> Func f b" by simp
    then have "callValue h fv v [t] w = (Inl TypeError, w)"
      by (cases fv) (simp_all add: callValue_def)
    with Inr show ?thesis by (simp add: callMethod_def)
  qed
  finally show ?thesis .
qed

text \<open>
  A value that is no function but has a function as its property \<^verbatim>\<open>bind\<close>: that
  function is called, on the value, with the receiver as its one argument.
\<close>

lemma bindValue_own_bind:
  assumes "\<forall>f b. v \<noteq> Func f b" and "getProp h (heap w) v ''bind'' = Inr (Func g b)"
  shows "bindValue h v t w =
     (snd (callFn h g (case b of Some t' \<Rightarrow> t' | None \<Rightarrow> v) [t] (ext w)),
      w\<lparr>calls := calls w @ [(g, case b of Some t' \<Rightarrow> t' | None \<Rightarrow> v, [t])],
        ext := fst (callFn h g (case b of Some t' \<Rightarrow> t' | None \<Rightarrow> v) [t] (ext w))\<rparr>)"
proof -
  have "bindValue h v t w = callMethod h v ''bind'' [t] w"
    using assms(1) by (cases v) (simp_all add: bindValue_def)
  then show ?thesis
    using assms(2) by (simp add: callMethod_def callValue_def Let_def)
qed

lemma bind_append:
  "bind h (xs @ ys) this w =
     (case bind h xs this w of
        (None, this', w') \<Rightarrow> bind h ys this' w'
      | (Some e, this', w') \<Rightarrow> (Some e, this', w'))"
  by (induction xs arbitrary: this w) (auto split: prod.splits sum.splits option.splits)

text \<open>
  Binding names that all hold functions succeeds and calls nothing. A function that was
  not fixed to a receiver is now fixed to the instance; one that was keeps its receiver.
\<close>

lemma bind_functions:
  "\<forall>n\<in>set names. \<exists>f b. props this n = Func f b \<Longrightarrow>
   bind h names this w =
     (None,
      this\<lparr>props := \<lambda>n. if n \<in> set names
                then (case props this n of
                        Func f b \<Rightarrow>
                          Func f (Some (case b of Some t \<Rightarrow> t | None \<Rightarrow> Ref (self this)))
                      | v \<Rightarrow> v)
                else props this n\<rparr>,
      w)"
proof (induction names arbitrary: this)
  case Nil
  then show ?case by simp
next
  case (Cons a names)
  from Cons.prems obtain f b where a: "props this a = Func f b" by auto
  let ?v = "Func f (Some (case b of Some t \<Rightarrow> t | None \<Rightarrow> Ref (self this)))"
  let ?c = "setProp this a ?v"
  have step: "bind h (a # names) this w = bind h names ?c w"
    by (simp add: a bindValue_Func)
  have "\<forall>n\<in>set names. \<exists>f b. props ?c n = Func f b"
    using Cons.prems by auto
  from Cons.IH [OF this] show ?case
    unfolding step using a
    by (auto simp: setProp_def fun_eq_iff split: jsval.splits option.splits)
qed

text \<open>
  C2, as the code has it. The class checks no name and defines no error of its own; line 85
  evaluates \<^verbatim>\<open>this[name].bind(this)\<close>. Let the names before \<open>name\<close> hold functions and
  the member \<open>name\<close> be no function. If its property \<^verbatim>\<open>bind\<close> is no function either
  (so when the member is missing, null, a primitive value, an element or an object without
  such a property), the loop throws the TypeError of the host at \<open>name\<close>, which goes to the
  caller: the names before it are rebound, the member itself and the names after it are
  left as they were, and nothing was called. If its property \<^verbatim>\<open>bind\<close> is a function,
  that function is called once, on the member, with the instance as its one argument: an
  exception it throws goes to the caller in the same way; when it returns, no error is
  raised at \<open>name\<close>, the member is overwritten with what it returned, and the loop goes on
  with the names after it.
\<close>

theorem bind_fails_at_name:
  assumes "\<forall>n\<in>set pre. \<exists>f b. props this n = Func f b"
    and "\<forall>f b. props this name \<noteq> Func f b"
  shows "((\<forall>g b. getProp h (heap w) (props this name) ''bind'' \<noteq> Inr (Func g b)) \<longrightarrow>
      bind h (pre @ name # post) this w =
        (Some TypeError,
         this\<lparr>props := \<lambda>n. if n \<in> set pre
                   then (case props this n of
                           Func f b \<Rightarrow>
                             Func f (Some (case b of Some t \<Rightarrow> t | None \<Rightarrow> Ref (self this)))
                         | v \<Rightarrow> v)
                   else props this n\<rparr>,
         w))
    \<and> (\<forall>g b. getProp h (heap w) (props this name) ''bind'' = Inr (Func g b) \<longrightarrow>
      bind h (pre @ name # post) this w =
        (let recv = (case b of Some t \<Rightarrow> t | None \<Rightarrow> props this name);
             res = callFn h g recv [Ref (self this)] (ext w);
             w1 = w\<lparr>calls := calls w @ [(g, recv, [Ref (self this)])], ext := fst res\<rparr>;
             c = this\<lparr>props := \<lambda>n. if n \<in> set pre
                   then (case props this n of
                           Func f b \<Rightarrow>
                             Func f (Some (case b of Some t \<Rightarrow> t | None \<Rightarrow> Ref (self this)))
                         | v \<Rightarrow> v)
                   else props this n\<rparr>
         in case snd res of
              Inl e \<Rightarrow> (Some e, c, w1)
            | Inr r \<Rightarrow> bind h post (setProp c name r) w1))"
proof -
  let ?c = "this\<lparr>props := \<lambda>n. if n \<in> set pre
                   then (case props this n of
                           Func f b \<Rightarrow>
                             Func f (Some (case b of Some t \<Rightarrow> t | None \<Rightarrow> Ref (self this)))
                         | v \<Rightarrow> v)
                   else props this n\<rparr>"
  have c: "bind h pre this w = (None, ?c, w)"
    by (rule bind_functions [OF assms(1)])
  have np: "name \<notin> set pre"
    using assms by auto
  then have m: "props ?c name = props this name" and s: "self ?c = self this"
    by simp_all
  have nf: "\<forall>f b. props ?c name \<noteq> Func f b"
    using assms(2) np by simp
  have fails: "bind h (pre @ name # post) this w = (Some TypeError, ?c, w)"
    if "\<forall>g b. getProp h (heap w) (props this name) ''bind'' \<noteq> Inr (Func g b)"
  proof -
    have "bindValue h (props ?c name) (Ref (self ?c)) w = (Inl TypeError, w)"
      using nf that np by (intro bindValue_TypeError) simp_all
    then show ?thesis
      using np by (simp add: bind_append c)
  qed
  have calls: "bind h (pre @ name # post) this w =
        (let recv = (case b of Some t \<Rightarrow> t | None \<Rightarrow> props this name);
             res = callFn h g recv [Ref (self this)] (ext w);
             w1 = w\<lparr>calls := calls w @ [(g, recv, [Ref (self this)])], ext := fst res\<rparr>
         in case snd res of
              Inl e \<Rightarrow> (Some e, ?c, w1)
            | Inr r \<Rightarrow> bind h post (setProp ?c name r) w1)"
    if "getProp h (heap w) (props this name) ''bind'' = Inr (Func g b)" for g b
  proof -
    have "getProp h (heap w) (props ?c name) ''bind'' = Inr (Func g b)"
      using that np by simp
    from bindValue_own_bind [OF nf this, of "Ref (self ?c)"] np
    show ?thesis
      by (simp add: bind_append c Let_def split: sum.split cong: option.case_cong)
  qed
  show ?thesis
    using fails calls by (simp add: Let_def)
qed


theorem bind_fails_at_name_witness:
  "bind loader [''foo'', ''missing'', ''bar'']
     \<lparr>self = 4, defaultData = None,
       props = (\<lambda>n. Undefined)(''foo'' := Func 7 None, ''bar'' := Func 8 None)\<rparr>
     \<lparr>calls = [], ext = [], heap = []\<rparr>
   = (Some TypeError,
      \<lparr>self = 4, defaultData = None,
        props = (\<lambda>n. Undefined)(''foo'' := Func 7 (Some (Ref 4)), ''bar'' := Func 8 None)\<rparr>,
      \<lparr>calls = [], ext = [], heap = []\<rparr>)
   \<and> bind (\<lparr>jQuery = None, toUpperCase = asciiUpper, setTimeout = Undefined,
            refProp = (\<lambda>r n. Undefined),
            callFn = (\<lambda>f t a w. (w, Inl (Thrown (Str ''boom''))))\<rparr> :: unit host)
       [''foo'', ''helper'', ''bar'']
       \<lparr>self = 4, defaultData = None,
         props = (\<lambda>n. Undefined)(''foo'' := Func 7 None, ''bar'' := Func 8 None,
                   ''helper'' := Obj [''bind'' \<mapsto> Func 9 None])\<rparr>
       \<lparr>calls = [], ext = (), heap = []\<rparr>
   = (Some (Thrown (Str ''boom'')),
      \<lparr>self = 4, defaultData = None,
        props = (\<lambda>n. Undefined)(''foo'' := Func 7 (Some (Ref 4)), ''bar'' := Func 8 None,
                  ''helper'' := Obj [''bind'' \<mapsto> Func 9 None])\<rparr>,
      \<lparr>calls = [(9, Obj [''bind'' \<mapsto> Func 9 None], [Ref 4])], ext = (), heap = []\<rparr>)"
proof -
  have first: "bind loader [''foo'', ''missing'', ''bar'']
     \<lparr>self = 4, defaultData = None,
       props = (\<lambda>n. Undefined)(''foo'' := Func 7 None, ''bar'' := Func 8 None)\<rparr>
     \<lparr>calls = [], ext = [], heap = []\<rparr>
   = (Some TypeError,
      \<lparr>self = 4, defaultData = None,
        props = (\<lambda>n. Undefined)(''foo'' := Func 7 (Some (Ref 4)), ''bar'' := Func 8 None)\<rparr>,
      \<lparr>calls = [], ext = [], heap = []\<rparr>)"
    using bind_fails_at_name [of "[''foo'']"
       "\<lparr>self = 4, defaultData = None,
         props = (\<lambda>n. Undefined)(''foo'' := Func 7 None, ''bar'' := Func 8 None)\<rparr>"
       "''missing''" loader "\<lparr>calls = [], ext = [], heap = []\<rparr>" "[''bar'']"]
    by (simp add: getProp_def fun_eq_iff)
  have second: "bind (\<lparr>jQuery = None, toUpperCase = asciiUpper, setTimeout = Undefined,
            refProp = (\<lambda>r n. Undefined),
            callFn = (\<lambda>f t a w. (w, Inl (Thrown (Str ''boom''))))\<rparr> :: unit host)
       [''foo'', ''helper'', ''bar'']
       \<lparr>self = 4, defaultData = None,
         props = (\<lambda>n. Undefined)(''foo'' := Func 7 None, ''bar'' := Func 8 None,
                   ''helper'' := Obj [''bind'' \<mapsto> Func 9 None])\<rparr>
       \<lparr>calls = [], ext = (), heap = []\<rparr>
   = (Some (Thrown (Str ''boom'')),
      \<lparr>self = 4, defaultData = None,
        props = (\<lambda>n. Undefined)(''foo'' := Func 7 (Some (Ref 4)), ''bar'' := Func 8 None,
                  ''helper'' := Obj [''bind'' \<mapsto> Func 9 None])\<rparr>,
      \<lparr>calls = [(9, Obj [''bind'' \<mapsto> Func 9 None], [Ref 4])], ext = (), heap = []\<rparr>)"
    using bind_fails_at_name [of "[''foo'']"
       "\<lparr>self = 4, defaultData = None,
         props = (\<lambda>n. Undefined)(''foo'' := Func 7 None, ''bar'' := Func 8 None,
                   ''helper'' := Obj [''bind'' \<mapsto> Func 9 None])\<rparr>"
       "''helper''"
       "\<lparr>jQuery = None, toUpperCase = asciiUpper, setTimeout = Undefined,
            refProp = (\<lambda>r n. Undefined),
            callFn = (\<lambda>f t a w. (w, Inl (Thrown (Str ''boom''))))\<rparr> :: unit host"
       "\<lparr>calls = [], ext = (), heap = []\<rparr>" "[''bar'']"]
    by (simp add: getProp_def fun_eq_iff Let_def)
  show ?thesis
    using first second by (rule conjI)
qed

text \<open>
  A member that is not callable and yet binds without any error: an object with a method
  \<^verbatim>\<open>bind\<close> of its own that returns, as a jQuery wrapper has one. Calling the member
  throws, binding the name does not.
\<close>

theorem bind_object_with_bind_counterexample:
  "fst (callValue loader (Obj [''bind'' \<mapsto> Func 9 None]) (Ref 4) []
          \<lparr>calls = [], ext = [], heap = []\<rparr>)
     = Inl TypeError
   \<and> fst (bind loader [''helper'']
         \<lparr>self = 4, defaultData = None,
           props = (\<lambda>n. Undefined)(''helper'' := Obj [''bind'' \<mapsto> Func 9 None])\<rparr>
         \<lparr>calls = [], ext = [], heap = []\<rparr>) = None"
  by (simp add: callValue_def bindValue_def callMethod_def getProp_def Let_def loader_def
      loaderCall_def)

text \<open>
  C4, as the code has it. When every named member is a function that is not yet fixed to a
  receiver, binding succeeds, and each named member is replaced in place by the function
  fixed to the instance: called through the stored reference with any receiver or with
  none, it runs exactly as the method called on the instance did; binding it again, to
  whatever value, changes nothing; the members that were not named stay as they were.
\<close>

theorem bind_rebinds_methods:
  assumes "\<forall>n\<in>set names. \<exists>f. props this n = Func f None"
  shows "fst (bind h names this w) = None
   \<and> snd (snd (bind h names this w)) = w
   \<and> (\<forall>n\<in>set names. \<forall>f. props this n = Func f None \<longrightarrow>
        props (fst (snd (bind h names this w))) n = Func f (Some (Ref (self this)))
        \<and> (\<forall>recv args w'.
             callValue h (props (fst (snd (bind h names this w))) n) recv args w'
               = callValue h (props this n) (Ref (self this)) args w')
        \<and> (\<forall>other w'.
             bindValue h (props (fst (snd (bind h names this w))) n) other w'
               = (Inr (props (fst (snd (bind h names this w))) n), w')))
   \<and> (\<forall>n. n \<notin> set names \<longrightarrow> props (fst (snd (bind h names this w))) n = props this n)"
proof -
  from assms have "\<forall>n\<in>set names. \<exists>f b. props this n = Func f b"
    by blast
  from bind_functions [OF this, of h w] show ?thesis
    by (auto simp: callValue_def bindValue_Func)
qed

theorem bind_rebinds_methods_witness:
  "fst (bind loader [''foo'', ''bar'']
         \<lparr>self = 4, defaultData = None,
           props = (\<lambda>n. Undefined)(''foo'' := Func 7 None, ''bar'' := Func 8 None)\<rparr>
         \<lparr>calls = [], ext = [], heap = []\<rparr>) = None
   \<and> props (fst (snd (bind loader [''foo'', ''bar'']
         \<lparr>self = 4, defaultData = None,
           props = (\<lambda>n. Undefined)(''foo'' := Func 7 None, ''bar'' := Func 8 None)\<rparr>
         \<lparr>calls = [], ext = [], heap = []\<rparr>))) ''foo'' = Func 7 (Some (Ref 4))
   \<and> props (fst (snd (bind loader [''foo'', ''bar'']
         \<lparr>self = 4, defaultData = None,
           props = (\<lambda>n. Undefined)(''foo'' := Func 7 None, ''bar'' := Func 8 None)\<rparr>
         \<lparr>calls = [], ext = [], heap = []\<rparr>))) ''bar'' = Func 8 (Some (Ref 4))"
  using bind_rebinds_methods [of "[''foo'', ''bar'']"
     "\<lparr>self = 4, defaultData = None,
       props = (\<lambda>n. Undefined)(''foo'' := Func 7 None, ''bar'' := Func 8 None)\<rparr>"
     loader "\<lparr>calls = [], ext = [], heap = []\<rparr>"]
  by simp

text \<open>
  A callable member that binding does not tie to the instance: a function that was fixed
  to another object before. After binding, the stored reference called without a receiver
  still runs with that other object, here the object 5 and not the instance 4.
\<close>

theorem bind_already_bound_counterexample:
  "fst (bind loader [''foo'']
         \<lparr>self = 4, defaultData = None,
           props = (\<lambda>n. Undefined)(''foo'' := Func 7 (Some (Ref 5)))\<rparr>
         \<lparr>calls = [], ext = [], heap = []\<rparr>) = None
   \<and> calls (snd (callValue loader
         (props (fst (snd (bind loader [''foo'']
            \<lparr>self = 4, defaultData = None,
              props = (\<lambda>n. Undefined)(''foo'' := Func 7 (Some (Ref 5)))\<rparr>
            \<lparr>calls = [], ext = [], heap = []\<rparr>))) ''foo'')
         Undefined [] \<lparr>calls = [], ext = [], heap = []\<rparr>))
       = [(7, Ref 5, [])]"
  by (simp add: bindValue_Func callValue_def Let_def)

section \<open>Deferring\<close>

lemma count_insort_key:
  "count_list (map g (insort_key f x xs)) c = count_list (map g (x # xs)) c"
  by (induction xs) simp_all

lemma count_sort_key:
  "count_list (map g (sort_key f xs)) c = count_list (map g xs) c"
  by (induction xs) (simp_all add: count_insort_key)

lemma count_list_append': "count_list (xs @ ys) c = count_list xs c + count_list ys c"
  by (induction xs) simp_all

lemma fired_advance:
  "count_list (fired (advance t st)) c =
     count_list (fired st) c
     + count_list (map snd (filter (\<lambda>p. fst p \<le> t) (pending st))) c"
  by (simp add: advance_def count_list_append' count_sort_key)

lemma pending_advance: "pending (advance t st) = filter (\<lambda>p. t < fst p) (pending st)"
  by (simp add: advance_def)

text \<open>Two queues with the same entries keep the difference of their runs.\<close>

lemma loop_same:
  "pending st' = pending st \<Longrightarrow> \<forall>c. count_list (fired st') c = count_list (fired st) c + k c \<Longrightarrow>
   pending (fold advance ts st') = pending (fold advance ts st)
   \<and> (\<forall>c. count_list (fired (fold advance ts st')) c
            = count_list (fired (fold advance ts st)) c + k c)"
proof (induction ts arbitrary: st' st)
  case Nil
  then show ?case by simp
next
  case (Cons t ts)
  have "pending (advance t st') = pending (advance t st)"
    using Cons.prems(1) by (simp add: pending_advance)
  moreover have "\<forall>c. count_list (fired (advance t st')) c
      = count_list (fired (advance t st)) c + k c"
    using Cons.prems by (simp add: fired_advance)
  ultimately show ?case
    using Cons.IH [of "advance t st'" "advance t st"] by simp
qed

text \<open>
  A queue with one entry more runs that callback once more, in the first run of the loop
  that reaches its due time, and never again.
\<close>

lemma loop_one_more:
  "pending st' = pending st @ [(due, cb)] \<Longrightarrow>
   \<forall>c. count_list (fired st') c = count_list (fired st) c \<Longrightarrow>
   \<forall>c. count_list (fired (fold advance ts st')) c
        = count_list (fired (fold advance ts st)) c
          + (if c = cb \<and> (\<exists>t\<in>set ts. due \<le> t) then 1 else 0)"
proof (induction ts arbitrary: st' st)
  case Nil
  then show ?case by simp
next
  case (Cons t ts)
  show ?case
  proof (cases "due \<le> t")
    case True
    have p: "pending (advance t st') = pending (advance t st)"
      using Cons.prems(1) True by (simp add: pending_advance)
    have f: "\<forall>c. count_list (fired (advance t st')) c
        = count_list (fired (advance t st)) c + (if c = cb then 1 else 0)"
      using Cons.prems True by (simp add: fired_advance)
    from loop_same [OF p f, of ts] show ?thesis
      using True by simp
  next
    case False
    have p: "pending (advance t st') = pending (advance t st) @ [(due, cb)]"
      using Cons.prems(1) False by (simp add: pending_advance)
    have f: "\<forall>c. count_list (fired (advance t st')) c = count_list (fired (advance t st)) c"
      using Cons.prems False by (simp add: fired_advance)
    from Cons.IH [OF p f] show ?thesis
      using False by simp
  qed
qed

lemma defer_setTimeout:
  "setTimeout h = Func f b \<Longrightarrow>
   defer' h callback ms this w =
     (case snd (callFn h f (case b of Some t \<Rightarrow> t | None \<Rightarrow> Undefined)
                  [callback, case ms of Undefined \<Rightarrow> Num 17 | _ \<Rightarrow> ms] (ext w)) of
        Inl e \<Rightarrow> Inl e
      | Inr handle \<Rightarrow> Inr Undefined,
      this,
      w\<lparr>calls := calls w @ [(f, case b of Some t \<Rightarrow> t | None \<Rightarrow> Undefined,
                             [callback, case ms of Undefined \<Rightarrow> Num 17 | _ \<Rightarrow> ms])],
        ext := fst (callFn h f (case b of Some t \<Rightarrow> t | None \<Rightarrow> Undefined)
                     [callback, case ms of Undefined \<Rightarrow> Num 17 | _ \<Rightarrow> ms] (ext w))\<rparr>)"
  by (simp add: defer'_def callValue_def Let_def)

lemma timerHost_call:
  "callFn timerHost 0 t [cb, ms] st =
     (st\<lparr>pending := pending st @ [(now st + delayOf ms, cb)]\<rparr>,
      Inr (Num (1 + int (length (pending st)) + int (length (fired st)))))"
  by (simp add: timerHost_def timerCall_def)

lemma defer_timerHost:
  "defer' timerHost callback ms this w =
     (Inr Undefined, this,
      w\<lparr>calls := calls w @ [(0, Undefined, [callback, case ms of Undefined \<Rightarrow> Num 17 | _ \<Rightarrow> ms])],
        ext := (ext w)\<lparr>pending := pending (ext w)
                 @ [(now (ext w) + delayOf (case ms of Undefined \<Rightarrow> Num 17 | _ \<Rightarrow> ms),
                     callback)]\<rparr>\<rparr>)"
  using defer_setTimeout [of timerHost 0 None callback ms this w]
  by (simp add: timerHost_call) (simp add: timerHost_def)

text \<open>
  C10. When the global \<^verbatim>\<open>setTimeout\<close> is a function, \<^verbatim>\<open>defer(cb, d)\<close> calls it
  once, with the callback and the delay, the delay being 17 when it is omitted; it does
  not call the callback itself, leaves the instance as it was, and returns undefined
  whatever handle the timer gave back. With the timer of the spec and a delay
  \<open>d \<ge> 0\<close>: when the method returns no callback has been run, so the callback does not
  run within the call, not even for the delay 0; and however the event loop runs
  afterwards, up to the times \<open>ts\<close> one after the other, the callback is run exactly once
  more than without the call if one of these times is at least \<open>d\<close> milliseconds after the
  time of the call, and not at all more if none is. No other callback is affected.
\<close>

theorem defer_schedules_once:
  "(setTimeout h = Func f b \<longrightarrow>
      defer' h callback ms this w =
        (case snd (callFn h f (case b of Some t \<Rightarrow> t | None \<Rightarrow> Undefined)
                     [callback, case ms of Undefined \<Rightarrow> Num 17 | _ \<Rightarrow> ms] (ext w)) of
           Inl e \<Rightarrow> Inl e
         | Inr handle \<Rightarrow> Inr Undefined,
         this,
         w\<lparr>calls := calls w @ [(f, case b of Some t \<Rightarrow> t | None \<Rightarrow> Undefined,
                                [callback, case ms of Undefined \<Rightarrow> Num 17 | _ \<Rightarrow> ms])],
           ext := fst (callFn h f (case b of Some t \<Rightarrow> t | None \<Rightarrow> Undefined)
                        [callback, case ms of Undefined \<Rightarrow> Num 17 | _ \<Rightarrow> ms] (ext w))\<rparr>))
   \<and> (0 \<le> d \<longrightarrow>
        fst (defer' timerHost callback (Num d) this' w') = Inr Undefined
        \<and> fst (snd (defer' timerHost callback (Num d) this' w')) = this'
        \<and> calls (snd (snd (defer' timerHost callback (Num d) this' w')))
            = calls w' @ [(0, Undefined, [callback, Num d])]
        \<and> fired (ext (snd (snd (defer' timerHost callback (Num d) this' w')))) = fired (ext w')
        \<and> (\<forall>ts c. count_list
               (fired (fold advance ts (ext (snd (snd (defer' timerHost callback (Num d) this' w')))))) c
             = count_list (fired (fold advance ts (ext w'))) c
               + (if c = callback \<and> (\<exists>t\<in>set ts. now (ext w') + nat d \<le> t) then 1 else 0)))
   \<and> fst (defer' timerHost callback Undefined this' w') = Inr Undefined
   \<and> calls (snd (snd (defer' timerHost callback Undefined this' w')))
       = calls w' @ [(0, Undefined, [callback, Num 17])]
   \<and> fired (ext (snd (snd (defer' timerHost callback Undefined this' w')))) = fired (ext w')
   \<and> (\<forall>ts c. count_list
          (fired (fold advance ts (ext (snd (snd (defer' timerHost callback Undefined this' w')))))) c
        = count_list (fired (fold advance ts (ext w'))) c
          + (if c = callback \<and> (\<exists>t\<in>set ts. now (ext w') + 17 \<le> t) then 1 else 0))"
proof -
  have one: "\<forall>c. count_list
        (fired (fold advance ts ((ext w')\<lparr>pending := pending (ext w') @ [(due, callback)]\<rparr>))) c
      = count_list (fired (fold advance ts (ext w'))) c
        + (if c = callback \<and> (\<exists>t\<in>set ts. due \<le> t) then 1 else 0)" for ts due
    by (rule loop_one_more) simp_all
  show ?thesis
    by (simp add: defer_setTimeout defer_timerHost delayOf_def one)
qed

theorem defer_schedules_once_witness:
  "setTimeout timerHost = Func 0 None
   \<and> defer' timerHost (Func 7 None) (Num 0)
        \<lparr>self = 4, defaultData = None, props = (\<lambda>n. Undefined)\<rparr>
        \<lparr>calls = [], ext = \<lparr>now = 100, pending = [], fired = []\<rparr>, heap = []\<rparr>
      = (Inr Undefined,
         \<lparr>self = 4, defaultData = None, props = (\<lambda>n. Undefined)\<rparr>,
         \<lparr>calls = [(0, Undefined, [Func 7 None, Num 0])],
          ext = \<lparr>now = 100, pending = [(100, Func 7 None)], fired = []\<rparr>, heap = []\<rparr>)
   \<and> (0 :: int) \<le> 0
   \<and> count_list (fired (fold advance [100] (ext (snd (snd
        (defer' timerHost (Func 7 None) (Num 0)
          \<lparr>self = 4, defaultData = None, props = (\<lambda>n. Undefined)\<rparr>
          \<lparr>calls = [], ext = \<lparr>now = 100, pending = [], fired = []\<rparr>, heap = []\<rparr>))))))
        (Func 7 None) = 1
   \<and> calls (snd (snd (defer' timerHost (Func 7 None) Undefined
          \<lparr>self = 4, defaultData = None, props = (\<lambda>n. Undefined)\<rparr>
          \<lparr>calls = [], ext = \<lparr>now = 100, pending = [], fired = []\<rparr>, heap = []\<rparr>)))
       = [(0, Undefined, [Func 7 None, Num 17])]
   \<and> fired (ext (snd (snd (defer' timerHost (Func 7 None) Undefined
          \<lparr>self = 4, defaultData = None, props = (\<lambda>n. Undefined)\<rparr>
          \<lparr>calls = [], ext = \<lparr>now = 100, pending = [], fired = []\<rparr>, heap = []\<rparr>)))) = []
   \<and> count_list (fired (fold advance [116] (ext (snd (snd
        (defer' timerHost (Func 7 None) Undefined
          \<lparr>self = 4, defaultData = None, props = (\<lambda>n. Undefined)\<rparr>
          \<lparr>calls = [], ext = \<lparr>now = 100, pending = [], fired = []\<rparr>, heap = []\<rparr>))))))
        (Func 7 None) = 0
   \<and> count_list (fired (fold advance [116, 117, 200] (ext (snd (snd
        (defer' timerHost (Func 7 None) Undefined
          \<lparr>self = 4, defaultData = None, props = (\<lambda>n. Undefined)\<rparr>
          \<lparr>calls = [], ext = \<lparr>now = 100, pending = [], fired = []\<rparr>, heap = []\<rparr>))))))
        (Func 7 None) = 1"
proof -
  let ?T = "\<lparr>self = 4, defaultData = None, props = (\<lambda>n. Undefined)\<rparr>"
  let ?W = "\<lparr>calls = [], ext = \<lparr>now = 100, pending = [], fired = []\<rparr>, heap = []\<rparr>"
  note r = defer_schedules_once [where h = timerHost and f = 0 and b = None
      and callback = "Func 7 None" and ms = "Num 0" and this = ?T and w = ?W
      and d = 0 and this' = ?T and w' = ?W]
  have s: "setTimeout timerHost = Func 0 None"
    by (simp add: timerHost_def)
  have a: "defer' timerHost (Func 7 None) (Num 0) ?T ?W
      = (Inr Undefined, ?T,
         \<lparr>calls = [(0, Undefined, [Func 7 None, Num 0])],
          ext = \<lparr>now = 100, pending = [(100, Func 7 None)], fired = []\<rparr>, heap = []\<rparr>)"
    using r s by (simp add: timerHost_def timerCall_def delayOf_def)
  have q0: "count_list (fired (fold advance ts (ext (snd (snd
        (defer' timerHost (Func 7 None) (Num 0) ?T ?W)))))) c
      = count_list (fired (fold advance ts (ext ?W))) c
        + (if c = Func 7 None \<and> (\<exists>t\<in>set ts. now (ext ?W) + nat 0 \<le> t) then 1 else 0)"
    for ts c
    using r by blast
  have q17: "count_list (fired (fold advance ts (ext (snd (snd
        (defer' timerHost (Func 7 None) Undefined ?T ?W)))))) c
      = count_list (fired (fold advance ts (ext ?W))) c
        + (if c = Func 7 None \<and> (\<exists>t\<in>set ts. now (ext ?W) + 17 \<le> t) then 1 else 0)"
    for ts c
    using r by blast
  have z0: "count_list (fired (fold advance ts \<lparr>now = n, pending = [], fired = []\<rparr>)) c = 0"
    for ts n c
    by (induction ts arbitrary: n) (simp_all add: advance_def)
  have z: "count_list (fired (fold advance ts (ext ?W))) c = 0" for ts c
    using z0 [of ts 100 c] by simp
  have b: "count_list (fired (fold advance [100] (ext (snd (snd
        (defer' timerHost (Func 7 None) (Num 0) ?T ?W)))))) (Func 7 None) = 1"
    unfolding q0 z by simp
  have c: "calls (snd (snd (defer' timerHost (Func 7 None) Undefined ?T ?W)))
       = [(0, Undefined, [Func 7 None, Num 17])]"
    using r by simp
  have d: "fired (ext (snd (snd (defer' timerHost (Func 7 None) Undefined ?T ?W)))) = []"
    using r by simp
  have e: "count_list (fired (fold advance [116] (ext (snd (snd
        (defer' timerHost (Func 7 None) Undefined ?T ?W)))))) (Func 7 None) = 0"
    unfolding q17 z by simp
  have f: "count_list (fired (fold advance [116, 117, 200] (ext (snd (snd
        (defer' timerHost (Func 7 None) Undefined ?T ?W)))))) (Func 7 None) = 1"
    unfolding q17 z by simp
  show ?thesis
    using s a b c d e f by simp
qed

end
